theory Spec2Isabelle
  imports Complex_Main
begin

section \<open>Data model of \<open>src/training/trainer.py\<close>\<close>

text \<open>
  A float is a finite real or one of the three IEEE special values. Rounding is not
  modelled; the claims below concern only which values are NaN or infinite and how
  they compare.
\<close>

datatype fval = Fin real | PosInf | NegInf | NaN

fun isnan :: "fval \<Rightarrow> bool" where
  "isnan NaN = True"
| "isnan _ = False"

fun isinf :: "fval \<Rightarrow> bool" where
  "isinf PosInf = True"
| "isinf NegInf = True"
| "isinf _ = False"

fun isfinite :: "fval \<Rightarrow> bool" where
  "isfinite (Fin _) = True"
| "isfinite _ = False"

text \<open>Python's \<open>a < b\<close> on floats: every comparison with NaN is false.\<close>

fun fless :: "fval \<Rightarrow> fval \<Rightarrow> bool" where
  "fless (Fin a) (Fin b) = (a < b)"
| "fless (Fin _) PosInf = True"
| "fless NegInf (Fin _) = True"
| "fless NegInf PosInf = True"
| "fless _ _ = False"

text \<open>\<open>np.sqrt\<close>: NaN for a negative argument, the identity on \<open>+inf\<close> and NaN.\<close>

fun np_sqrt :: "fval \<Rightarrow> fval" where
  "np_sqrt (Fin x) = (if x < 0 then NaN else Fin (sqrt x))"
| "np_sqrt PosInf = PosInf"
| "np_sqrt NegInf = NaN"
| "np_sqrt NaN = NaN"

text \<open>
  A pandas column has a dtype; the source only asks whether it is \<open>"object"\<close>.
  A cell is a float or a non-numeric payload (a string, a category label, a timestamp).
\<close>

datatype dtype = Float64 | Int64 | Bool | Object | Category | Datetime64

datatype cell = Num fval | Label string

record dataframe =
  columns :: "(string \<times> dtype) list"
  df_values :: "cell list list"

record series =
  s_dtype :: dtype
  s_values :: "cell list"

text \<open>
  Every \<open>raise\<close> of the source is a \<open>ValueError\<close>; the message template tells the
  raise sites apart. The other constructors are the exceptions Python or the libraries
  raise on the paths the source leaves unguarded.
\<close>

datatype message =
    NonNumericColumn string
  | NonNumericTarget
  | NaNDetected
  | InfDetected
  | LossNaNInf nat
  | LibraryMessage string

datatype error =
    ValueError message
  | TypeError
  | ZeroDivisionError
  | UnboundLocalError
  | RuntimeError

text \<open>
  The spec's names for the three failure classes, read off the raise sites:
  \<open>DataTypeError\<close> is raised by \<open>check_data_types\<close>, \<open>DataIntegrityError\<close> by
  \<open>check_for_nan_inf\<close>, \<open>NumericalInstabilityError\<close> by the loss check.
\<close>

fun is_DataTypeError :: "error \<Rightarrow> bool" where
  "is_DataTypeError (ValueError (NonNumericColumn _)) = True"
| "is_DataTypeError (ValueError NonNumericTarget) = True"
| "is_DataTypeError _ = False"

fun is_DataIntegrityError :: "error \<Rightarrow> bool" where
  "is_DataIntegrityError (ValueError NaNDetected) = True"
| "is_DataIntegrityError (ValueError InfDetected) = True"
| "is_DataIntegrityError _ = False"

fun is_NumericalInstabilityError :: "error \<Rightarrow> bool" where
  "is_NumericalInstabilityError (ValueError (LossNaNInf _)) = True"
| "is_NumericalInstabilityError _ = False"

section \<open>Validator\<close>

text \<open>\<open>for column in X.columns: if X[column].dtype == "object": raise ValueError\<close>\<close>

fun check_columns :: "(string \<times> dtype) list \<Rightarrow> error + unit" where
  "check_columns [] = Inr ()"
| "check_columns ((column, d) # rest) =
     (if d = Object then Inl (ValueError (NonNumericColumn column))
      else check_columns rest)"

definition check_data_types :: "dataframe \<Rightarrow> series \<Rightarrow> error + unit" where
  "check_data_types X y =
     (case check_columns (columns X) of
        Inl e \<Rightarrow> Inl e
      | Inr _ \<Rightarrow>
          if s_dtype y = Object then Inl (ValueError NonNumericTarget) else Inr ())"

text \<open>\<open>isnull\<close> is true of NaN cells; \<open>np.isfinite\<close> raises \<open>TypeError\<close> on an array
  that holds a non-numeric payload.\<close>

fun isnull :: "cell \<Rightarrow> bool" where
  "isnull (Num v) = isnan v"
| "isnull (Label _) = False"

fun is_label :: "cell \<Rightarrow> bool" where
  "is_label (Label _) = True"
| "is_label (Num _) = False"

fun cell_finite :: "cell \<Rightarrow> bool" where
  "cell_finite (Num v) = isfinite v"
| "cell_finite (Label _) = False"

definition np_isfinite_all :: "cell list \<Rightarrow> error + bool" where
  "np_isfinite_all cs =
     (if list_ex is_label cs then Inl TypeError else Inr (list_all cell_finite cs))"

definition check_for_nan_inf :: "dataframe \<Rightarrow> series \<Rightarrow> error + unit" where
  "check_for_nan_inf X y =
     (if list_ex isnull (concat (df_values X)) \<or> list_ex isnull (s_values y)
      then Inl (ValueError NaNDetected)
      else (case np_isfinite_all (concat (df_values X)) of
              Inl e \<Rightarrow> Inl e
            | Inr fx \<Rightarrow>
                if \<not> fx then Inl (ValueError InfDetected)
                else (case np_isfinite_all (s_values y) of
                        Inl e \<Rightarrow> Inl e
                      | Inr fy \<Rightarrow>
                          if \<not> fy then Inl (ValueError InfDetected) else Inr ())))"

text \<open>The spec's Dataset: every column numeric, every cell a number.\<close>

definition numeric_dtype :: "dtype \<Rightarrow> bool" where
  "numeric_dtype d = (d = Float64 \<or> d = Int64 \<or> d = Bool)"




section \<open>The tensor framework\<close>

text \<open>
  The model, the loss, the optimizer, the data loader and the metrics come from
  PyTorch and scikit-learn; they are parameters of the embedding. What is fixed is how
  PyTorch shares memory: a parameter tensor lives at an address of a store,
  \<open>state_dict()\<close> returns tensors that share the parameters' storage, the optimizer
  updates the storage in place, and \<open>load_state_dict\<close> copies values into it.
\<close>

type_synonym addr = nat

type_synonym state_dict = "(string \<times> addr) list"

datatype xtensor = Rank2 "fval list list" | Rank3 "fval list list list"

record ('t, 'o, 'g) env =
  cuda_available :: bool
  named_parameters :: state_dict
  forward :: "(string \<times> 't) list \<Rightarrow> bool \<Rightarrow> xtensor \<Rightarrow> fval list"
  MSELoss :: "fval list \<Rightarrow> fval list \<Rightarrow> fval"
  backward :: "(string \<times> 't) list \<Rightarrow> xtensor \<Rightarrow> fval list \<Rightarrow> 'g"
  adam_init :: 'o
  adam_step :: "real \<Rightarrow> real \<Rightarrow> 'o \<Rightarrow> 'g \<Rightarrow> 't list \<Rightarrow> 'o \<times> 't list"
  loader :: "nat \<Rightarrow> int \<Rightarrow> xtensor \<Rightarrow> fval list \<Rightarrow> (xtensor \<times> fval list) list"
  mean_squared_error :: "fval list \<Rightarrow> fval list \<Rightarrow> error + fval"
  r2_score :: "fval list \<Rightarrow> fval list \<Rightarrow> error + fval"

text \<open>
  The mutable world of one run: the store, the model's mode and device, the gradient
  buffers, the optimizer's state. \<open>n_backward\<close> and \<open>n_step\<close> count the calls of
  \<open>loss.backward()\<close> and \<open>optimizer.step()\<close>; \<open>val_log\<close> is the MSE of each
  "Evaluation results" log record, oldest first.
\<close>

record ('t, 'o, 'g) world =
  heap :: "addr \<Rightarrow> 't"
  training :: bool
  device :: "string option"
  grads :: "'g option"
  opt_state :: 'o
  n_backward :: nat
  n_step :: nat
  val_log :: "fval list"

definition read_state :: "('t, 'o, 'g) world \<Rightarrow> state_dict \<Rightarrow> (string \<times> 't) list" where
  "read_state w sd = map (\<lambda>(name, a). (name, heap w a)) sd"

definition state_dict_of :: "('t, 'o, 'g) env \<Rightarrow> state_dict" where
  "state_dict_of E = named_parameters E"

text \<open>\<open>load_state_dict\<close>: for each parameter of the model, in order, copy the value
  of the entry of that name into the parameter's storage; a missing key is an error.\<close>

fun copy_params :: "state_dict \<Rightarrow> state_dict \<Rightarrow> (addr \<Rightarrow> 't) \<Rightarrow> error + (addr \<Rightarrow> 't)" where
  "copy_params [] sd h = Inr h"
| "copy_params ((name, a) # ps) sd h =
     (case map_of sd name of
        None \<Rightarrow> Inl RuntimeError
      | Some src \<Rightarrow> copy_params ps sd (h(a := h src)))"

definition load_state_dict ::
  "('t, 'o, 'g) env \<Rightarrow> state_dict \<Rightarrow> ('t, 'o, 'g) world \<Rightarrow> error + ('t, 'o, 'g) world" where
  "load_state_dict E sd w =
     (case copy_params (named_parameters E) sd (heap w) of
        Inl e \<Rightarrow> Inl e
      | Inr h \<Rightarrow> Inr (w\<lparr>heap := h\<rparr>))"

text \<open>\<open>torch.FloatTensor(values)\<close> raises \<open>TypeError\<close> on a non-numeric payload.\<close>

fun to_float :: "cell list \<Rightarrow> error + fval list" where
  "to_float [] = Inr []"
| "to_float (Label _ # cs) = Inl TypeError"
| "to_float (Num v # cs) = (case to_float cs of Inl e \<Rightarrow> Inl e | Inr vs \<Rightarrow> Inr (v # vs))"

fun FloatTensor2 :: "cell list list \<Rightarrow> error + fval list list" where
  "FloatTensor2 [] = Inr []"
| "FloatTensor2 (r # rs) =
     (case to_float r of
        Inl e \<Rightarrow> Inl e
      | Inr v \<Rightarrow> (case FloatTensor2 rs of Inl e \<Rightarrow> Inl e | Inr vs \<Rightarrow> Inr (v # vs)))"

definition resolve_device :: "('t, 'o, 'g) env \<Rightarrow> string option \<Rightarrow> string" where
  "resolve_device E dev =
     (case dev of
        None \<Rightarrow> (if cuda_available E then ''cuda'' else ''cpu'')
      | Some d \<Rightarrow> d)"

section \<open>Evaluator\<close>

definition evaluate_model ::
  "('t, 'o, 'g) env \<Rightarrow> dataframe \<Rightarrow> series \<Rightarrow> string option \<Rightarrow> ('t, 'o, 'g) world
   \<Rightarrow> (error + fval \<times> fval \<times> fval) \<times> ('t, 'o, 'g) world" where
  "evaluate_model E X_val y_val dev w =
     (let w1 = w\<lparr>device := Some (resolve_device E dev)\<rparr> in
      case FloatTensor2 (df_values X_val) of
        Inl e \<Rightarrow> (Inl e, w1)
      | Inr X_val_tensor \<Rightarrow>
         (case to_float (s_values y_val) of
            Inl e \<Rightarrow> (Inl e, w1)
          | Inr y_val_tensor \<Rightarrow>
             (let w2 = w1\<lparr>training := False\<rparr>;
                  predictions =
                    forward E (read_state w2 (named_parameters E)) False (Rank2 X_val_tensor)
              in case mean_squared_error E y_val_tensor predictions of
                   Inl e \<Rightarrow> (Inl e, w2)
                 | Inr mse \<Rightarrow>
                    (let rmse = np_sqrt mse in
                     case r2_score E y_val_tensor predictions of
                       Inl e \<Rightarrow> (Inl e, w2)
                     | Inr r2 \<Rightarrow>
                         (Inr (mse, rmse, r2), w2\<lparr>val_log := val_log w2 @ [mse]\<rparr>)))))"

section \<open>Trainer\<close>

record config =
  epochs :: int
  batch_size :: int
  learning_rate :: real
  patience :: int
  weight_decay :: real
  cfg_device :: "string option"

text \<open>\<open>optimizer.step()\<close>: the new values are written to the parameters' own storage.
  With no gradient present the step changes nothing but is still a step.\<close>

fun write_params :: "addr list \<Rightarrow> 't list \<Rightarrow> (addr \<Rightarrow> 't) \<Rightarrow> (addr \<Rightarrow> 't)" where
  "write_params (a # as) (v # vs) h = write_params as vs (h(a := v))"
| "write_params _ _ h = h"

definition optimizer_step ::
  "('t, 'o, 'g) env \<Rightarrow> config \<Rightarrow> ('t, 'o, 'g) world \<Rightarrow> ('t, 'o, 'g) world" where
  "optimizer_step E cfg w =
     (case grads w of
        None \<Rightarrow> w\<lparr>n_step := Suc (n_step w)\<rparr>
      | Some g \<Rightarrow>
         (let as = map snd (named_parameters E);
              (st, vs) = adam_step E (learning_rate cfg) (weight_decay cfg) (opt_state w) g
                           (map (heap w) as)
          in w\<lparr>heap := write_params as vs (heap w), opt_state := st,
                n_step := Suc (n_step w)\<rparr>))"

text \<open>One mini-batch (lines 124 to 133). The running \<open>total_loss\<close> feeds only the
  progress record and is not kept.\<close>

definition train_batch ::
  "('t, 'o, 'g) env \<Rightarrow> config \<Rightarrow> nat \<Rightarrow> xtensor \<times> fval list \<Rightarrow> ('t, 'o, 'g) world
   \<Rightarrow> (error + fval) \<times> ('t, 'o, 'g) world" where
  "train_batch E cfg epoch b w =
     (let w1 = w\<lparr>grads := None\<rparr>;
          ps = read_state w1 (named_parameters E);
          outputs = forward E ps (training w1) (fst b);
          loss = MSELoss E outputs (snd b)
      in if isnan loss \<or> isinf loss then (Inl (ValueError (LossNaNInf epoch)), w1)
         else (Inr loss,
               optimizer_step E cfg
                 (w1\<lparr>grads := Some (backward E ps (fst b) (snd b)),
                      n_backward := Suc (n_backward w1)\<rparr>)))"

fun train_batches ::
  "('t, 'o, 'g) env \<Rightarrow> config \<Rightarrow> nat \<Rightarrow> (xtensor \<times> fval list) list \<Rightarrow> ('t, 'o, 'g) world
   \<Rightarrow> (error + unit) \<times> ('t, 'o, 'g) world" where
  "train_batches E cfg epoch [] w = (Inr (), w)"
| "train_batches E cfg epoch (b # bs) w =
     (case train_batch E cfg epoch b w of
        (Inl e, w1) \<Rightarrow> (Inl e, w1)
      | (Inr loss, w1) \<Rightarrow> train_batches E cfg epoch bs w1)"

text \<open>The body of one epoch up to the validation MSE (lines 121 to 138);
  \<open>total_loss / len(train_loader)\<close> divides by zero when the loader is empty.\<close>

definition run_epoch ::
  "('t, 'o, 'g) env \<Rightarrow> config \<Rightarrow> xtensor \<Rightarrow> fval list \<Rightarrow> dataframe \<Rightarrow> series \<Rightarrow> string
   \<Rightarrow> nat \<Rightarrow> ('t, 'o, 'g) world \<Rightarrow> (error + fval) \<times> ('t, 'o, 'g) world" where
  "run_epoch E cfg X_train_tensor y_train_tensor X_val y_val dev epoch w =
     (let train_loader = loader E epoch (batch_size cfg) X_train_tensor y_train_tensor in
      case train_batches E cfg epoch train_loader (w\<lparr>training := True\<rparr>) of
        (Inl e, w1) \<Rightarrow> (Inl e, w1)
      | (Inr u, w1) \<Rightarrow>
          if length train_loader = 0 then (Inl ZeroDivisionError, w1)
          else (case evaluate_model E X_val y_val (Some dev) w1 of
                  (Inl e, w2) \<Rightarrow> (Inl e, w2)
                | (Inr (val_mse, val_rmse, val_r2), w2) \<Rightarrow> (Inr val_mse, w2)))"

text \<open>
  The variables of the epoch loop. \<open>best_model_state\<close> is unbound until the first
  improvement; \<open>epochs_run\<close> counts the epochs whose body has been executed.
\<close>

record loop_state =
  best_val_loss :: fval
  epochs_no_improve :: int
  early_stop :: bool
  best_model_state :: "state_dict option"
  epochs_run :: nat

text \<open>Lines 141 to 147: the early-stopping bookkeeping after one validation.\<close>

definition update_best :: "('t, 'o, 'g) env \<Rightarrow> fval \<Rightarrow> loop_state \<Rightarrow> loop_state" where
  "update_best E val_mse ls =
     (if fless val_mse (best_val_loss ls)
      then ls\<lparr>best_val_loss := val_mse, epochs_no_improve := 0,
              best_model_state := Some (state_dict_of E)\<rparr>
      else ls\<lparr>epochs_no_improve := epochs_no_improve ls + 1\<rparr>)"

text \<open>\<open>for epoch in range(epochs)\<close>: the first argument is the number of epochs
  still to run, the second the loop variable.\<close>

fun training_loop ::
  "('t, 'o, 'g) env \<Rightarrow> config \<Rightarrow> xtensor \<Rightarrow> fval list \<Rightarrow> dataframe \<Rightarrow> series \<Rightarrow> string
   \<Rightarrow> nat \<Rightarrow> nat \<Rightarrow> loop_state \<Rightarrow> ('t, 'o, 'g) world
   \<Rightarrow> (error + loop_state) \<times> ('t, 'o, 'g) world" where
  "training_loop E cfg Xt yt X_val y_val dev 0 epoch ls w = (Inr ls, w)"
| "training_loop E cfg Xt yt X_val y_val dev (Suc n) epoch ls w =
     (case run_epoch E cfg Xt yt X_val y_val dev epoch w of
        (Inl e, w1) \<Rightarrow> (Inl e, w1)
      | (Inr val_mse, w1) \<Rightarrow>
         (let ls1 = (update_best E val_mse ls)\<lparr>epochs_run := Suc (epochs_run ls)\<rparr> in
          if patience cfg \<le> epochs_no_improve ls1
          then (Inr (ls1\<lparr>early_stop := True\<rparr>), w1)
          else training_loop E cfg Xt yt X_val y_val dev n (Suc epoch) ls1 w1))"

definition init_loop_state :: loop_state where
  "init_loop_state =
     \<lparr>best_val_loss = PosInf, epochs_no_improve = 0, early_stop = False,
      best_model_state = None, epochs_run = 0\<rparr>"

text \<open>\<open>X_train_tensor.unsqueeze(1)\<close> when the tensor has rank 2.\<close>

fun unsqueeze_if_rank2 :: "xtensor \<Rightarrow> xtensor" where
  "unsqueeze_if_rank2 (Rank2 rows) = Rank3 (map (\<lambda>r. [r]) rows)"
| "unsqueeze_if_rank2 t = t"

text \<open>The loop of \<open>train_model\<close> from tensor conversion on (lines 89 to 160).\<close>

definition run_training ::
  "('t, 'o, 'g) env \<Rightarrow> dataframe \<Rightarrow> series \<Rightarrow> dataframe \<Rightarrow> series \<Rightarrow> config
   \<Rightarrow> ('t, 'o, 'g) world \<Rightarrow> (error + loop_state) \<times> ('t, 'o, 'g) world" where
  "run_training E X_train y_train X_val y_val cfg w =
     (let dev = resolve_device E (cfg_device cfg);
          w1 = w\<lparr>device := Some dev\<rparr>
      in case FloatTensor2 (df_values X_train) of
           Inl e \<Rightarrow> (Inl e, w1)
         | Inr X_train_tensor \<Rightarrow>
            (case to_float (s_values y_train) of
               Inl e \<Rightarrow> (Inl e, w1)
             | Inr y_train_tensor \<Rightarrow>
                 training_loop E cfg (unsqueeze_if_rank2 (Rank2 X_train_tensor)) y_train_tensor
                   X_val y_val dev (nat (epochs cfg)) 0 init_loop_state
                   (w1\<lparr>opt_state := adam_init E\<rparr>)))"

text \<open>Lines 162 to 165: restore the snapshot and return the model's state dict.\<close>

definition restore_best ::
  "('t, 'o, 'g) env \<Rightarrow> loop_state \<Rightarrow> ('t, 'o, 'g) world
   \<Rightarrow> (error + state_dict) \<times> ('t, 'o, 'g) world" where
  "restore_best E ls w =
     (case best_model_state ls of
        None \<Rightarrow> (Inl UnboundLocalError, w)
      | Some sd \<Rightarrow>
         (case load_state_dict E sd w of
            Inl e \<Rightarrow> (Inl e, w)
          | Inr w1 \<Rightarrow> (Inr (state_dict_of E), w1)))"

definition train_model ::
  "('t, 'o, 'g) env \<Rightarrow> dataframe \<Rightarrow> series \<Rightarrow> dataframe \<Rightarrow> series \<Rightarrow> config
   \<Rightarrow> ('t, 'o, 'g) world \<Rightarrow> (error + state_dict) \<times> ('t, 'o, 'g) world" where
  "train_model E X_train y_train X_val y_val cfg w =
     (case check_data_types X_train y_train of
        Inl e \<Rightarrow> (Inl e, w)
      | Inr u \<Rightarrow>
         (case check_for_nan_inf X_train y_train of
            Inl e \<Rightarrow> (Inl e, w)
          | Inr u' \<Rightarrow>
             (case run_training E X_train y_train X_val y_val cfg w of
                (Inl e, w1) \<Rightarrow> (Inl e, w1)
              | (Inr ls, w1) \<Rightarrow> restore_best E ls w1)))"

section \<open>A concrete framework instance\<close>

text \<open>
  A one-parameter model that predicts its parameter for every row, trained by plain
  gradient steps on the squared error, with single-precision losses and metrics: a mean
  of squares above the largest \<open>float32\<close> overflows to \<open>+inf\<close>. The loader
  yields the whole training set as one batch. It instantiates the framework for the
  concrete runs below.
\<close>

definition flt_max :: real where
  "flt_max = 340282346638528859811704183484516925440"

fun the_fin :: "fval \<Rightarrow> real" where
  "the_fin (Fin x) = x"
| "the_fin _ = 0"

definition f32_mean_sq :: "fval list \<Rightarrow> fval list \<Rightarrow> fval" where
  "f32_mean_sq ys ps =
     (if \<not> (list_all isfinite ys \<and> list_all isfinite ps) then NaN
      else (let m = sum_list (map2 (\<lambda>a b. (the_fin a - the_fin b)\<^sup>2) ys ps) / real (length ys)
            in if flt_max < m then PosInf else Fin m))"

definition ex_mean_squared_error :: "fval list \<Rightarrow> fval list \<Rightarrow> error + fval" where
  "ex_mean_squared_error ys ps =
     (if list_all isfinite ys \<and> list_all isfinite ps then Inr (f32_mean_sq ys ps)
      else Inl (ValueError (LibraryMessage ''Input contains NaN or infinity.'')))"

fun ex_forward :: "(string \<times> real) list \<Rightarrow> bool \<Rightarrow> xtensor \<Rightarrow> fval list" where
  "ex_forward ps tr (Rank2 rows) = map (\<lambda>r. Fin (sum_list (map snd ps))) rows"
| "ex_forward ps tr (Rank3 rows) = map (\<lambda>r. Fin (sum_list (map snd ps))) rows"

definition ex_backward :: "(string \<times> real) list \<Rightarrow> xtensor \<Rightarrow> fval list \<Rightarrow> real" where
  "ex_backward ps x ys =
     2 * sum_list (map (\<lambda>y. sum_list (map snd ps) - the_fin y) ys) / real (length ys)"

definition ex_env :: "(real, unit, real) env" where
  "ex_env =
     \<lparr>cuda_available = False,
      named_parameters = [(''bias'', 0)],
      forward = ex_forward,
      MSELoss = (\<lambda>outputs ys. f32_mean_sq ys outputs),
      backward = ex_backward,
      adam_init = (),
      adam_step = (\<lambda>lr wd st g vs. (st, map (\<lambda>v. v - lr * g) vs)),
      loader = (\<lambda>epoch bs x ys. if ys = [] then [] else [(x, ys)]),
      mean_squared_error = ex_mean_squared_error,
      r2_score = (\<lambda>ys ps. Inr NaN)\<rparr>"

definition ex_world :: "real \<Rightarrow> (real, unit, real) world" where
  "ex_world b =
     \<lparr>heap = (\<lambda>a. b), training = False, device = None, grads = None, opt_state = (),
      n_backward = 0, n_step = 0, val_log = []\<rparr>"

definition ex_frame :: "dtype \<Rightarrow> cell list \<Rightarrow> dataframe" where
  "ex_frame d cs = \<lparr>columns = [(''x'', d)], df_values = map (\<lambda>c. [c]) cs\<rparr>"

definition ex_series :: "dtype \<Rightarrow> cell list \<Rightarrow> series" where
  "ex_series d cs = \<lparr>s_dtype = d, s_values = cs\<rparr>"

definition ex_cfg :: "int \<Rightarrow> int \<Rightarrow> real \<Rightarrow> config" where
  "ex_cfg n p lr =
     \<lparr>epochs = n, batch_size = 32, learning_rate = lr, patience = p,
      weight_decay = 0, cfg_device = None\<rparr>"

section \<open>Notions used in the statements\<close>

text \<open>The loss the loop computes for batch \<open>b\<close> in world \<open>w\<close> (lines 125 to 127).\<close>

definition batch_loss ::
  "('t, 'o, 'g) env \<Rightarrow> xtensor \<times> fval list \<Rightarrow> ('t, 'o, 'g) world \<Rightarrow> fval" where
  "batch_loss E b w =
     MSELoss E (forward E (read_state w (named_parameters E)) (training w) (fst b)) (snd b)"

text \<open>
  The validation MSEs of \<open>k\<close> consecutive epochs from epoch index \<open>epoch\<close> on,
  with the early-stopping test left out.
\<close>

fun run_epochs ::
  "('t, 'o, 'g) env \<Rightarrow> config \<Rightarrow> xtensor \<Rightarrow> fval list \<Rightarrow> dataframe \<Rightarrow> series \<Rightarrow> string
   \<Rightarrow> nat \<Rightarrow> nat \<Rightarrow> ('t, 'o, 'g) world \<Rightarrow> (error + fval list) \<times> ('t, 'o, 'g) world" where
  "run_epochs E cfg Xt yt X_val y_val dev 0 epoch w = (Inr [], w)"
| "run_epochs E cfg Xt yt X_val y_val dev (Suc k) epoch w =
     (case run_epoch E cfg Xt yt X_val y_val dev epoch w of
        (Inl e, w1) \<Rightarrow> (Inl e, w1)
      | (Inr v, w1) \<Rightarrow>
         (case run_epochs E cfg Xt yt X_val y_val dev k (Suc epoch) w1 of
            (Inl e, w2) \<Rightarrow> (Inl e, w2)
          | (Inr vs, w2) \<Rightarrow> (Inr (v # vs), w2)))"

section \<open>Validator: the type check\<close>

lemma check_columns_Inr_iff: "check_columns cs = Inr () \<longleftrightarrow> Object \<notin> snd ` set cs"
  by (induction cs rule: check_columns.induct) auto

text \<open>
  Claim C4: every feature table with a feature column of non-numeric type, and every
  non-numeric target, makes the Validator raise \<open>DataTypeError\<close>, whatever the
  concrete non-numeric dtype. The code compares the dtype with \<open>"object"\<close> only: a
  feature column of dtype \<open>category\<close> holding strings passes \<open>check_data_types\<close>,
  although the function's docstring says it ensures that all features and the target
  are numeric.
\<close>

theorem check_data_types_category_passes:
  "check_data_types (ex_frame Category [Label ''striker'']) (ex_series Float64 [Num (Fin 1)])
   = Inr ()"
  by (simp add: check_data_types_def ex_frame_def ex_series_def)

section \<open>Evaluator\<close>

lemma ex_evaluate:
  "evaluate_model ex_env (ex_frame Float64 [Num (Fin 0)]) (ex_series Float64 [Num (Fin 2)]) None
     (ex_world 0)
   = (Inr (Fin 4, Fin 2, NaN),
      (ex_world 0)\<lparr>device := Some ''cpu'', training := False, val_log := [Fin 4]\<rparr>)"
  by (simp add: evaluate_model_def ex_env_def ex_world_def ex_frame_def ex_series_def
      ex_mean_squared_error_def f32_mean_sq_def flt_max_def read_state_def resolve_device_def)

text \<open>
  Claim C8: the RMSE returned by the Evaluator is the square root (\<open>np.sqrt\<close>) of the
  MSE returned by the same call.
\<close>

theorem evaluate_model_rmse:
  "evaluate_model E X_val y_val dev w = (Inr (mse, rmse, r2), w') \<Longrightarrow> rmse = np_sqrt mse"
  by (auto simp: evaluate_model_def Let_def split: sum.splits)

theorem evaluate_model_rmse_witness:
  "evaluate_model ex_env (ex_frame Float64 [Num (Fin 0)]) (ex_series Float64 [Num (Fin 2)]) None
     (ex_world 0)
   = (Inr (Fin 4, Fin 2, NaN),
      (ex_world 0)\<lparr>device := Some ''cpu'', training := False, val_log := [Fin 4]\<rparr>)
   \<and> Fin 2 = np_sqrt (Fin 4)"
  using evaluate_model_rmse [OF ex_evaluate] ex_evaluate by simp

lemma evaluate_model_heap: "heap (snd (evaluate_model E X y dev w)) = heap w"
  by (auto simp: evaluate_model_def Let_def split: sum.splits)

lemma read_state_cong: "heap w' = heap w \<Longrightarrow> read_state w' sd = read_state w sd"
  by (simp add: read_state_def)

lemma evaluate_model_fst_cong:
  assumes "heap w' = heap w"
  shows "fst (evaluate_model E X y dev w') = fst (evaluate_model E X y dev w)"
proof -
  have r: "read_state (w'\<lparr>device := d, training := False\<rparr>) sd
         = read_state (w\<lparr>device := d, training := False\<rparr>) sd" for d sd
    by (rule read_state_cong) (simp add: assms)
  show ?thesis
    unfolding evaluate_model_def Let_def r
    by (simp split: sum.split)
qed

text \<open>
  Claim C7: calling the Evaluator twice in succession on the same model and validation
  data returns the same (MSE, RMSE, R2) triple, or the same error, both times, and the
  parameter values in the store are the same before the first call, between the calls
  and after the second.
\<close>

theorem evaluate_model_idempotent:
  "fst (evaluate_model E X_val y_val dev (snd (evaluate_model E X_val y_val dev w)))
     = fst (evaluate_model E X_val y_val dev w)
   \<and> heap (snd (evaluate_model E X_val y_val dev w)) = heap w
   \<and> heap (snd (evaluate_model E X_val y_val dev (snd (evaluate_model E X_val y_val dev w))))
     = heap w"
proof -
  have h: "heap (snd (evaluate_model E X_val y_val dev w)) = heap w"
    by (rule evaluate_model_heap)
  have "fst (evaluate_model E X_val y_val dev (snd (evaluate_model E X_val y_val dev w)))
     = fst (evaluate_model E X_val y_val dev w)"
    by (rule evaluate_model_fst_cong) (rule h)
  moreover have "heap (snd (evaluate_model E X_val y_val dev (snd (evaluate_model E X_val y_val dev w))))
     = heap w"
    using evaluate_model_heap [of E X_val y_val dev "snd (evaluate_model E X_val y_val dev w)"] h
    by (rule trans)
  ultimately show ?thesis using h by blast
qed

section \<open>Validator: the integrity check\<close>











section \<open>Trainer: the mini-batch loop\<close>

lemma read_state_grads [simp]: "read_state (w\<lparr>grads := g\<rparr>) sd = read_state w sd"
  by (simp add: read_state_def)

lemma train_batch_bad_loss:
  "isnan (batch_loss E b w) \<or> isinf (batch_loss E b w) \<Longrightarrow>
   train_batch E cfg epoch b w = (Inl (ValueError (LossNaNInf epoch)), w\<lparr>grads := None\<rparr>)"
  by (simp add: train_batch_def batch_loss_def Let_def)

lemma train_batches_append:
  "train_batches E cfg epoch bs1 w = (Inr (), w1) \<Longrightarrow>
   train_batches E cfg epoch (bs1 @ bs) w = train_batches E cfg epoch bs w1"
proof (induction bs1 arbitrary: w)
  case Nil
  then show ?case by simp
next
  case (Cons b bs1)
  obtain r w' where rw: "train_batch E cfg epoch b w = (r, w')"
    by (cases "train_batch E cfg epoch b w")
  show ?case
  proof (cases r)
    case (Inl e)
    with Cons.prems rw show ?thesis by simp
  next
    case (Inr l)
    with Cons.prems rw have "train_batches E cfg epoch bs1 w' = (Inr (), w1)" by simp
    from Cons.IH [OF this] rw Inr show ?thesis by simp
  qed
qed

text \<open>
  Claim C6: when the loss of a mini-batch is NaN or infinite, the run aborts at once with
  \<open>NumericalInstabilityError\<close>: the epoch loop returns the error raised at line 130,
  the remaining batches and epochs are not run, and neither \<open>backward\<close> nor
  \<open>optimizer.step\<close> is applied for that batch. The world is the one the preceding
  batches left, with the gradient buffers cleared by \<open>zero_grad\<close>: parameters,
  optimizer state and both counters are unchanged.
\<close>

theorem loss_nan_inf_aborts:
  assumes "loader E epoch (batch_size cfg) Xt yt = bs1 @ b # bs2"
    and "train_batches E cfg epoch bs1 (w\<lparr>training := True\<rparr>) = (Inr (), w1)"
    and "isnan (batch_loss E b w1) \<or> isinf (batch_loss E b w1)"
  shows "training_loop E cfg Xt yt X_val y_val dev (Suc n) epoch ls w
           = (Inl (ValueError (LossNaNInf epoch)), w1\<lparr>grads := None\<rparr>)
       \<and> is_NumericalInstabilityError (ValueError (LossNaNInf epoch))
       \<and> heap (w1\<lparr>grads := None\<rparr>) = heap w1
       \<and> opt_state (w1\<lparr>grads := None\<rparr>) = opt_state w1
       \<and> n_backward (w1\<lparr>grads := None\<rparr>) = n_backward w1
       \<and> n_step (w1\<lparr>grads := None\<rparr>) = n_step w1"
proof -
  have "train_batches E cfg epoch (bs1 @ b # bs2) (w\<lparr>training := True\<rparr>)
        = train_batches E cfg epoch (b # bs2) w1"
    by (rule train_batches_append [OF assms(2)])
  also have "\<dots> = (Inl (ValueError (LossNaNInf epoch)), w1\<lparr>grads := None\<rparr>)"
    by (simp add: train_batch_bad_loss [OF assms(3)])
  finally have "run_epoch E cfg Xt yt X_val y_val dev epoch w
        = (Inl (ValueError (LossNaNInf epoch)), w1\<lparr>grads := None\<rparr>)"
    by (simp add: run_epoch_def assms(1))
  then show ?thesis by simp
qed


theorem loss_nan_inf_aborts_witness:
  "loader ex_env 0 (batch_size (ex_cfg 5 1 1)) (Rank3 [[[Fin 0]]]) [Fin (10 ^ 20)]
     = [] @ (Rank3 [[[Fin 0]]], [Fin (10 ^ 20)]) # []
   \<and> train_batches ex_env (ex_cfg 5 1 1) 0 [] ((ex_world 0)\<lparr>training := True\<rparr>)
     = (Inr (), (ex_world 0)\<lparr>training := True\<rparr>)
   \<and> isinf (batch_loss ex_env (Rank3 [[[Fin 0]]], [Fin (10 ^ 20)])
              ((ex_world 0)\<lparr>training := True\<rparr>))
   \<and> training_loop ex_env (ex_cfg 5 1 1) (Rank3 [[[Fin 0]]]) [Fin (10 ^ 20)]
         (ex_frame Float64 [Num (Fin 0)]) (ex_series Float64 [Num (Fin 2)]) ''cpu''
         (Suc 4) 0 init_loop_state (ex_world 0)
     = (Inl (ValueError (LossNaNInf 0)), (ex_world 0)\<lparr>training := True, grads := None\<rparr>)"
proof -
  have a: "loader ex_env 0 (batch_size (ex_cfg 5 1 1)) (Rank3 [[[Fin 0]]]) [Fin (10 ^ 20)]
     = [] @ (Rank3 [[[Fin 0]]], [Fin (10 ^ 20)]) # []"
    by (simp add: ex_env_def)
  have b: "train_batches ex_env (ex_cfg 5 1 1) 0 [] ((ex_world 0)\<lparr>training := True\<rparr>)
     = (Inr (), (ex_world 0)\<lparr>training := True\<rparr>)"
    by simp
  have c: "isinf (batch_loss ex_env (Rank3 [[[Fin 0]]], [Fin (10 ^ 20)])
              ((ex_world 0)\<lparr>training := True\<rparr>))"
    by (simp add: batch_loss_def ex_env_def ex_world_def read_state_def f32_mean_sq_def
        flt_max_def)
  from c have c': "isnan (batch_loss ex_env (Rank3 [[[Fin 0]]], [Fin (10 ^ 20)])
              ((ex_world 0)\<lparr>training := True\<rparr>))
       \<or> isinf (batch_loss ex_env (Rank3 [[[Fin 0]]], [Fin (10 ^ 20)])
              ((ex_world 0)\<lparr>training := True\<rparr>))" ..
  note t = loss_nan_inf_aborts [OF a b c', where X_val = "ex_frame Float64 [Num (Fin 0)]"
      and y_val = "ex_series Float64 [Num (Fin 2)]" and dev = "''cpu''" and n = 4
      and ls = init_loop_state, THEN conjunct1]
  from t a b c show ?thesis by blast
qed

section \<open>Trainer: the optimizer-step counter\<close>

lemma optimizer_step_n_step: "n_step (optimizer_step E cfg w) = Suc (n_step w)"
  by (simp add: optimizer_step_def Let_def split: option.split prod.split)

lemma train_batch_n_step:
  assumes "train_batch E cfg epoch b w = (r, w1)"
  shows "(case r of Inl e \<Rightarrow> e = ValueError (LossNaNInf epoch) \<and> n_step w1 = n_step w
          | Inr l \<Rightarrow> n_step w1 = Suc (n_step w))"
proof (cases "isnan (batch_loss E b w) \<or> isinf (batch_loss E b w)")
  case True
  from train_batch_bad_loss [OF True] assms show ?thesis by auto
next
  case False
  then have "train_batch E cfg epoch b w
    = (Inr (batch_loss E b w),
       optimizer_step E cfg
         (w\<lparr>grads := Some (backward E (read_state w (named_parameters E)) (fst b) (snd b)),
             n_backward := Suc (n_backward w)\<rparr>))"
    by (simp add: train_batch_def batch_loss_def Let_def)
  with assms show ?thesis by (auto simp: optimizer_step_n_step)
qed

lemma train_batches_n_step:
  "train_batches E cfg epoch bs w = (r, w1) \<Longrightarrow>
   (case r of Inl e \<Rightarrow> e = ValueError (LossNaNInf epoch) \<and> n_step w \<le> n_step w1
    | Inr u \<Rightarrow> n_step w1 = n_step w + length bs)"
proof (induction bs arbitrary: w)
  case Nil
  then show ?case by auto
next
  case (Cons b bs)
  obtain r0 w0 where rw: "train_batch E cfg epoch b w = (r0, w0)"
    by (cases "train_batch E cfg epoch b w")
  note s = train_batch_n_step [OF rw]
  show ?case
  proof (cases r0)
    case (Inl e)
    with Cons.prems rw s show ?thesis by auto
  next
    case (Inr l)
    with Cons.prems rw have "train_batches E cfg epoch bs w0 = (r, w1)" by simp
    from Cons.IH [OF this] s Inr show ?thesis by (auto split: sum.splits)
  qed
qed

lemma evaluate_model_n_step: "n_step (snd (evaluate_model E X y dev w)) = n_step w"
  by (auto simp: evaluate_model_def Let_def split: sum.splits)


lemma run_epoch_n_step:
  assumes "run_epoch E cfg Xt yt X_val y_val dev epoch w = (r, w1)"
  shows "n_step w \<le> n_step w1"
    and "n_step w1 = n_step w \<Longrightarrow>
         r = Inl (ValueError (LossNaNInf epoch)) \<or> r = Inl ZeroDivisionError"
proof -
  let ?bs = "loader E epoch (batch_size cfg) Xt yt"
  obtain r0 w0 where tb: "train_batches E cfg epoch ?bs (w\<lparr>training := True\<rparr>) = (r0, w0)"
    by (cases "train_batches E cfg epoch ?bs (w\<lparr>training := True\<rparr>)")
  note s = train_batches_n_step [OF tb]
  have both: "n_step w \<le> n_step w1 \<and>
     (n_step w1 = n_step w \<longrightarrow>
        r = Inl (ValueError (LossNaNInf epoch)) \<or> r = Inl ZeroDivisionError)"
  proof (cases r0)
    case (Inl e)
    with assms tb s show ?thesis by (auto simp: run_epoch_def)
  next
    case (Inr u)
    show ?thesis
    proof (cases "?bs = []")
      case True
      with assms tb s Inr show ?thesis by (auto simp: run_epoch_def)
    next
      case False
      obtain r2 w2 where ev: "evaluate_model E X_val y_val (Some dev) w0 = (r2, w2)"
        by (cases "evaluate_model E X_val y_val (Some dev) w0")
      from evaluate_model_n_step [of E X_val y_val "Some dev" w0] ev
      have n2: "n_step w2 = n_step w0" by simp
      from assms tb Inr False ev have "w1 = w2"
        by (auto simp: run_epoch_def split: sum.splits)
      moreover from s Inr False have "n_step w < n_step w0" by (cases ?bs) auto
      ultimately show ?thesis using n2 by simp
    qed
  qed
  from both show "n_step w \<le> n_step w1" ..
  from both show "n_step w1 = n_step w \<Longrightarrow>
         r = Inl (ValueError (LossNaNInf epoch)) \<or> r = Inl ZeroDivisionError"
    by blast
qed

lemma training_loop_n_step:
  "training_loop E cfg Xt yt X_val y_val dev n epoch ls w = (r, w') \<Longrightarrow>
   n_step w \<le> n_step w' \<and>
   (n_step w' = n_step w \<longrightarrow>
      r = Inr ls \<or> (\<exists>k. r = Inl (ValueError (LossNaNInf k))) \<or> r = Inl ZeroDivisionError)"
proof (induction n arbitrary: epoch ls w)
  case 0
  then show ?case by auto
next
  case (Suc n)
  obtain r1 w1 where re: "run_epoch E cfg Xt yt X_val y_val dev epoch w = (r1, w1)"
    by (cases "run_epoch E cfg Xt yt X_val y_val dev epoch w")
  note s = run_epoch_n_step [OF re]
  show ?case
  proof (cases r1)
    case (Inl e)
    with Suc.prems re have "r = Inl e" "w' = w1" by simp_all
    with s Inl show ?thesis by auto
  next
    case (Inr v)
    with s have lt: "n_step w < n_step w1" by (cases "n_step w1 = n_step w") auto
    let ?ls1 = "(update_best E v ls)\<lparr>epochs_run := Suc (epochs_run ls)\<rparr>"
    show ?thesis
    proof (cases "patience cfg \<le> epochs_no_improve ?ls1")
      case True
      with Suc.prems re Inr have "w' = w1" by (simp add: Let_def)
      with lt show ?thesis by simp
    next
      case False
      with Suc.prems re Inr
      have "training_loop E cfg Xt yt X_val y_val dev n (Suc epoch) ?ls1 w1 = (r, w')"
        by (simp add: Let_def)
      from Suc.IH [OF this] lt show ?thesis by simp
    qed
  qed
qed


lemma to_float_error: "to_float cs = Inl e \<Longrightarrow> e = TypeError"
  by (induction cs rule: to_float.induct) (auto split: sum.splits)

lemma FloatTensor2_error: "FloatTensor2 rs = Inl e \<Longrightarrow> e = TypeError"
  by (induction rs) (auto split: sum.splits dest: to_float_error)

lemma run_training_n_step:
  assumes "run_training E X_train y_train X_val y_val cfg w = (r, w1)"
  shows "n_step w \<le> n_step w1 \<and>
   (n_step w1 = n_step w \<longrightarrow>
      r = Inr init_loop_state \<or> (\<exists>k. r = Inl (ValueError (LossNaNInf k)))
      \<or> r = Inl ZeroDivisionError \<or> r = Inl TypeError)"
proof (cases "FloatTensor2 (df_values X_train)")
  case (Inl e)
  with assms FloatTensor2_error [OF Inl] show ?thesis
    by (auto simp: run_training_def Let_def)
next
  case xt: (Inr X_train_tensor)
  show ?thesis
  proof (cases "to_float (s_values y_train)")
    case (Inl e)
    with assms xt to_float_error [OF Inl] show ?thesis
      by (auto simp: run_training_def Let_def)
  next
    case (Inr y_train_tensor)
    let ?w0 = "w\<lparr>device := Some (resolve_device E (cfg_device cfg)), opt_state := adam_init E\<rparr>"
    from assms xt Inr
    have "training_loop E cfg (unsqueeze_if_rank2 (Rank2 X_train_tensor)) y_train_tensor
            X_val y_val (resolve_device E (cfg_device cfg)) (nat (epochs cfg)) 0
            init_loop_state ?w0 = (r, w1)"
      by (simp add: run_training_def Let_def)
    from training_loop_n_step [OF this] show ?thesis by auto
  qed
qed

lemma restore_best_n_step:
  "restore_best E ls w = (r, w') \<Longrightarrow> n_step w' = n_step w"
  by (auto simp: restore_best_def load_state_dict_def split: option.splits sum.splits)

lemma restore_best_unbound:
  "best_model_state ls = None \<Longrightarrow> restore_best E ls w = (Inl UnboundLocalError, w)"
  by (simp add: restore_best_def)

lemma train_model_valid:
  "check_data_types X_train y_train = Inr () \<Longrightarrow> check_for_nan_inf X_train y_train = Inr () \<Longrightarrow>
   train_model E X_train y_train X_val y_val cfg w =
     (case run_training E X_train y_train X_val y_val cfg w of
        (Inl e, w1) \<Rightarrow> (Inl e, w1)
      | (Inr ls, w1) \<Rightarrow> restore_best E ls w1)"
  by (simp add: train_model_def)

lemma train_model_before_first_step:
  assumes "check_data_types X_train y_train = Inr ()"
    and "check_for_nan_inf X_train y_train = Inr ()"
    and "train_model E X_train y_train X_val y_val cfg w = (Inl e, w')"
    and "n_step w' = n_step w"
  shows "(\<exists>k. e = ValueError (LossNaNInf k)) \<or> e = ZeroDivisionError \<or> e = TypeError
         \<or> e = UnboundLocalError"
proof -
  obtain r w1 where rt: "run_training E X_train y_train X_val y_val cfg w = (r, w1)"
    by (cases "run_training E X_train y_train X_val y_val cfg w")
  note tm = train_model_valid [OF assms(1,2), of E X_val y_val cfg w]
  note s = run_training_n_step [OF rt]
  show ?thesis
  proof (cases r)
    case (Inl e1)
    with tm rt assms(3) have "e1 = e" "w1 = w'" by simp_all
    with s Inl assms(4) show ?thesis by auto
  next
    case (Inr ls)
    with tm rt assms(3) have rb: "restore_best E ls w1 = (Inl e, w')" by simp
    from restore_best_n_step [OF rb] assms(4) have "n_step w1 = n_step w" by simp
    with s Inr have "ls = init_loop_state" by auto
    then have "best_model_state ls = None" by (simp add: init_loop_state_def)
    from restore_best_unbound [OF this, of E w1] rb show ?thesis by simp
  qed
qed


text \<open>
  Claim C10: \<open>train_model\<close> validates the training split only. Whatever the validation
  split holds (non-numeric columns, NaN, infinities), no \<open>DataTypeError\<close> or
  \<open>DataIntegrityError\<close> is raised before training begins: once the training split
  has passed both checks, an error that ends the run before the first optimizer step
  is neither of the two. The validation values are handed to the Evaluator unchecked:
  its outcome is whatever the metric makes of them.
\<close>

theorem validation_split_unchecked:
  assumes "check_data_types X_train y_train = Inr ()"
    and "check_for_nan_inf X_train y_train = Inr ()"
  shows "(train_model E X_train y_train X_val y_val cfg w = (Inl e, w') \<and> n_step w' = n_step w
            \<longrightarrow> \<not> is_DataTypeError e \<and> \<not> is_DataIntegrityError e)
       \<and> (FloatTensor2 (df_values X_val) = Inr xv \<and> to_float (s_values y_val) = Inr yv
            \<and> mean_squared_error E yv
                  (forward E (read_state w2 (named_parameters E)) False (Rank2 xv)) = Inl e2
            \<longrightarrow> fst (evaluate_model E X_val y_val dev w2) = Inl e2)"
proof (intro conjI impI)
  assume a: "train_model E X_train y_train X_val y_val cfg w = (Inl e, w') \<and> n_step w' = n_step w"
  from train_model_before_first_step [OF assms] a
  have "(\<exists>k. e = ValueError (LossNaNInf k)) \<or> e = ZeroDivisionError \<or> e = TypeError
         \<or> e = UnboundLocalError"
    by blast
  then show "\<not> is_DataTypeError e" and "\<not> is_DataIntegrityError e" by auto
next
  assume "FloatTensor2 (df_values X_val) = Inr xv \<and> to_float (s_values y_val) = Inr yv
            \<and> mean_squared_error E yv
                  (forward E (read_state w2 (named_parameters E)) False (Rank2 xv)) = Inl e2"
  then show "fst (evaluate_model E X_val y_val dev w2) = Inl e2"
    by (simp add: evaluate_model_def Let_def read_state_def)
qed

text \<open>The definitions a concrete run unfolds.\<close>

lemmas ex_run_defs = train_model_def check_data_types_def check_for_nan_inf_def
  np_isfinite_all_def run_training_def restore_best_def load_state_dict_def state_dict_of_def
  init_loop_state_def run_epoch_def evaluate_model_def train_batch_def optimizer_step_def
  update_best_def read_state_def resolve_device_def ex_env_def ex_world_def ex_frame_def
  ex_series_def ex_cfg_def ex_mean_squared_error_def f32_mean_sq_def ex_backward_def
  flt_max_def Let_def

lemma ex_run_loss_inf:
  "train_model ex_env (ex_frame Float64 [Num (Fin 0)]) (ex_series Float64 [Num (Fin (10 ^ 20))])
     (ex_frame Float64 [Num (Fin 0)]) (ex_series Float64 [Num NaN]) (ex_cfg 5 1 1) (ex_world 0)
   = (Inl (ValueError (LossNaNInf 0)),
      (ex_world 0)\<lparr>device := Some ''cpu'', opt_state := (), training := True, grads := None\<rparr>)"
  by (simp add: ex_run_defs eval_nat_numeral)

theorem validation_split_unchecked_witness:
  "check_data_types (ex_frame Float64 [Num (Fin 0)]) (ex_series Float64 [Num (Fin (10 ^ 20))])
     = Inr ()
   \<and> check_for_nan_inf (ex_frame Float64 [Num (Fin 0)]) (ex_series Float64 [Num (Fin (10 ^ 20))])
     = Inr ()
   \<and> check_for_nan_inf (ex_frame Float64 [Num (Fin 0)]) (ex_series Float64 [Num NaN])
     = Inl (ValueError NaNDetected)
   \<and> train_model ex_env (ex_frame Float64 [Num (Fin 0)])
         (ex_series Float64 [Num (Fin (10 ^ 20))])
         (ex_frame Float64 [Num (Fin 0)]) (ex_series Float64 [Num NaN]) (ex_cfg 5 1 1)
         (ex_world 0)
     = (Inl (ValueError (LossNaNInf 0)),
        (ex_world 0)\<lparr>device := Some ''cpu'', opt_state := (), training := True,
                      grads := None\<rparr>)
   \<and> \<not> is_DataTypeError (ValueError (LossNaNInf 0))
   \<and> \<not> is_DataIntegrityError (ValueError (LossNaNInf 0))
   \<and> fst (evaluate_model ex_env (ex_frame Float64 [Num (Fin 0)]) (ex_series Float64 [Num NaN])
           None (ex_world 0))
     = Inl (ValueError (LibraryMessage ''Input contains NaN or infinity.''))"
proof -
  let ?Xt = "ex_frame Float64 [Num (Fin 0)]"
  let ?yt = "ex_series Float64 [Num (Fin (10 ^ 20))]"
  let ?yv = "ex_series Float64 [Num NaN]"
  let ?W = "(ex_world 0)\<lparr>device := Some ''cpu'', opt_state := (), training := True,
                      grads := None\<rparr>"
  let ?e2 = "ValueError (LibraryMessage ''Input contains NaN or infinity.'')"
  have a: "check_data_types ?Xt ?yt = Inr ()"
    by (simp add: check_data_types_def ex_frame_def ex_series_def)
  have b: "check_for_nan_inf ?Xt ?yt = Inr ()"
    by (simp add: check_for_nan_inf_def np_isfinite_all_def ex_frame_def ex_series_def)
  have c: "check_for_nan_inf ?Xt ?yv = Inl (ValueError NaNDetected)"
    by (simp add: check_for_nan_inf_def ex_frame_def ex_series_def)
  have d: "train_model ex_env ?Xt ?yt ?Xt ?yv (ex_cfg 5 1 1) (ex_world 0)
           = (Inl (ValueError (LossNaNInf 0)), ?W) \<and> n_step ?W = n_step (ex_world 0)"
    using ex_run_loss_inf by (simp add: ex_world_def)
  have f: "FloatTensor2 (df_values ?Xt) = Inr [[Fin 0]] \<and> to_float (s_values ?yv) = Inr [NaN]
           \<and> mean_squared_error ex_env [NaN]
                 (forward ex_env (read_state (ex_world 0) (named_parameters ex_env)) False
                    (Rank2 [[Fin 0]])) = Inl ?e2"
    by (simp add: ex_frame_def ex_series_def ex_env_def ex_mean_squared_error_def)
  note t = validation_split_unchecked [OF a b, where E = ex_env and X_val = ?Xt and y_val = ?yv
      and cfg = "ex_cfg 5 1 1" and w = "ex_world 0" and e = "ValueError (LossNaNInf 0)"
      and w' = ?W and xv = "[[Fin 0]]" and yv = "[NaN]" and ?w2.0 = "ex_world 0" and ?e2.0 = ?e2
      and dev = None]
  from t a b c d f show ?thesis by blast
qed

end
